theory Spec2Isabelle
  imports Main "HOL-Library.Word" "HOL-Library.AList"
begin

section \<open>Data model\<close>

text \<open>
  The translator lifts decoded x86 instructions to LLVM IR. Addresses are
  \<^verbatim>\<open>bin.Address\<close>, an unsigned 64-bit integer; Go's \<^verbatim>\<open>int64\<close> values are
  integers, wrapped by \<open>i64\<close> where the code adds them.
\<close>

type_synonym Address = "64 word"

definition i64 :: "int \<Rightarrow> int" where
  "i64 x = signed_take_bit 63 x"

text \<open>
  \<^verbatim>\<open>x86asm.Reg\<close> is an unsigned byte enumeration that starts at \<^verbatim>\<open>AL = 1\<close>
  and ends at \<^verbatim>\<open>TR7\<close>; the names below are the ones the translator mentions
  one by one and the first and last register of each class of its \<^verbatim>\<open>reg\<close> switch.
\<close>

type_synonym Reg = nat

abbreviation AL :: Reg where "AL \<equiv> 1"
abbreviation R15B :: Reg where "R15B \<equiv> 20"
abbreviation AX :: Reg where "AX \<equiv> 21"
abbreviation R15W :: Reg where "R15W \<equiv> 36"
abbreviation EAX :: Reg where "EAX \<equiv> 37"
abbreviation ECX :: Reg where "ECX \<equiv> 38"
abbreviation EDX :: Reg where "EDX \<equiv> 39"
abbreviation R15L :: Reg where "R15L \<equiv> 52"
abbreviation RAX :: Reg where "RAX \<equiv> 53"
abbreviation R15 :: Reg where "R15 \<equiv> 68"
abbreviation IP :: Reg where "IP \<equiv> 69"
abbreviation EIP :: Reg where "EIP \<equiv> 70"
abbreviation RIP :: Reg where "RIP \<equiv> 71"
abbreviation TR7 :: Reg where "TR7 \<equiv> 154"

text \<open>\<^verbatim>\<open>StatusFlag\<close> is an unsigned integer enumeration, \<^verbatim>\<open>CF = iota\<close> to \<^verbatim>\<open>OF\<close>.\<close>

type_synonym StatusFlag = nat

abbreviation CF :: StatusFlag where "CF \<equiv> 0"
abbreviation PF :: StatusFlag where "PF \<equiv> 1"
abbreviation AF :: StatusFlag where "AF \<equiv> 2"
abbreviation ZF :: StatusFlag where "ZF \<equiv> 3"
abbreviation SF :: StatusFlag where "SF \<equiv> 4"
abbreviation OF :: StatusFlag where "OF \<equiv> 5"

datatype Op =
    ADD | AND | CALL | CMP | IMUL | INC | MOV | PUSH | POP | XOR
  | JA | JAE | JB | JBE | JCXZ | JE | JECXZ | JG | JGE | JL | JLE | JNE
  | JNO | JNP | JNS | JO | JP | JRCXZ | JS | JMP | RET
  | OtherOp nat

text \<open>
  An operand: a register, a memory reference \<^verbatim>\<open>Segment:[Base+Scale*Index+Disp]\<close>,
  an immediate, a relative offset, or the nil of an unused operand slot.
\<close>

datatype Arg =
    RegArg Reg
  | MemArg (Segment: Reg) (Base: Reg) (Scale: nat) (Index: Reg) (Disp: int)
  | ImmArg int
  | RelArg int
  | NilArg

text \<open>
  A decoded instruction with its address. \<open>isDummyTerm\<close> stands for the method of
  that name, which is outside the files at hand: it tells the synthetic
  fall-through terminator from a decoded one.
\<close>

record instruction =
  addr :: Address
  Op :: Op
  Args :: "Arg list"
  Len :: int
  isDummyTerm :: bool

text \<open>\<^verbatim>\<open>inst.Args\<close> is an array of four operands; the unused ones are nil.\<close>

definition ArgAt :: "instruction \<Rightarrow> nat \<Rightarrow> Arg" where
  "ArgAt i n = (if n < length (Args i) \<and> n < 4 then Args i ! n else NilArg)"

subsection \<open>The IR\<close>

datatype ty =
    VoidType
  | IntType nat
  | PointerType ty
  | ArrayType int ty
  | StructType "ty list"
  | OtherType nat

abbreviation I1 :: ty where "I1 \<equiv> IntType 1"
abbreviation I8 :: ty where "I8 \<equiv> IntType 8"
abbreviation I16 :: ty where "I16 \<equiv> IntType 16"
abbreviation I32 :: ty where "I32 \<equiv> IntType 32"
abbreviation I64 :: ty where "I64 \<equiv> IntType 64"

datatype CallConv = CallConvNone | CallConvX86FastCall | CallConvOther nat

text \<open>The part of an \<^verbatim>\<open>ir.Function\<close> that call sites read.\<close>

record funcdecl =
  CallConv :: CallConv
  Params :: "ty list"
  Ret :: ty

text \<open>A global variable; its type \<^verbatim>\<open>g.Typ\<close> is the pointer to \<open>Elem\<close>.\<close>

record Global =
  Name :: string
  Elem :: ty

definition Typ :: "Global \<Rightarrow> ty" where
  "Typ g = PointerType (Elem g)"

datatype IntPred = IntEQ | IntNE | IntSLT

text \<open>
  The name of a cell is the lower-case name of its register or flag; it is kept
  symbolic.
\<close>

datatype cellname = RegName Reg | StatusName StatusFlag

text \<open>
  IR values. An instruction that yields a value is the value itself; a callee
  \<^verbatim>\<open>*function\<close> is known by the address it is recorded under and its embedded
  \<^verbatim>\<open>ir.Function\<close>, which may be nil.
\<close>

datatype val =
    ConstInt int ty
  | ConstFalse
  | ParamV nat ty
  | FuncV Address "funcdecl option"
  | GlobalV Global
  | InstAlloca ty cellname
  | InstLoad val
  | InstAdd val val
  | InstAnd val val
  | InstMul val val
  | InstXor val val
  | InstICmp IntPred val val
  | InstCall val "val list"
  | InstGetElementPtr val "val list"

datatype inst = ValueInst val | InstStore val val

text \<open>A branch target is a block of the function, known by its address.\<close>

datatype irterm =
    TermBr Address
  | TermCondBr val Address Address
  | TermRet "val option"

record irblock =
  Insts :: "inst list"
  Term :: "irterm option"

record basicBlock =
  BasicBlock :: irblock
  baddr :: Address
  insts :: "instruction list"
  terminator :: instruction

text \<open>
  The body of an IR function lists its blocks; each is tagged with the address
  of the block it was translated from, the synthetic entry block with \<open>None\<close>.
\<close>

record irFunction = funcdecl +
  Blocks :: "(Address option \<times> irblock) list"

text \<open>
  A function under translation. Go maps are association lists here; the keys
  of \<open>blocks\<close> are the addresses of the blocks.
\<close>

record func =
  entry :: Address
  Function :: "irFunction option"
  regs :: "(Reg \<times> val) list"
  status :: "(StatusFlag \<times> val) list"
  blocks :: "(Address \<times> basicBlock) list"

text \<open>
  The disassembler: the function and global tables, and the three methods that
  are outside the files at hand, taken as they are.
\<close>

record disassembler =
  funcs :: "(Address \<times> funcdecl option) list"
  globals :: "(Address \<times> Global) list"
  sizeOfType :: "ty \<Rightarrow> int"
  getAddrs :: "Address \<Rightarrow> Arg \<Rightarrow> Address list"
  isTailCall :: "Address \<Rightarrow> instruction \<Rightarrow> bool"

subsection \<open>Errors and aborts\<close>

text \<open>An error is returned to the caller; a panic aborts the run.\<close>

datatype error =
    MissingFunctionBody
  | UnableToLocateBasicBlock Address
  | InvalidNumberOfTrueBranches nat
  | InvalidCalleeType val

datatype panic =
    InstNotImplemented Op
  | TermNotImplemented Op
  | CondBranchNotImplemented Op
  | ArgNotImplemented Arg
  | RegNotImplemented Reg
  | UnableToLocateGlobal Address
  | InvalidSourceAddressType
  | IndexThroughPointer
  | IndexingNotImplemented ty
  | IndexOutOfRange
  | NilDereference

datatype 'a outcome = Ok 'a | Err error | Panic panic

section \<open>Translation state\<close>

text \<open>
  Translating a block mutates the function (its cell maps) and the IR block
  being filled; both are threaded through.
\<close>

record tstate =
  fn :: func
  bb :: irblock

type_synonym 'a tr = "tstate \<Rightarrow> 'a outcome \<times> tstate"

definition ret :: "'a \<Rightarrow> 'a tr" where
  "ret v s = (Ok v, s)"

definition fail :: "error \<Rightarrow> 'a tr" where
  "fail e s = (Err e, s)"

definition abort :: "panic \<Rightarrow> 'a tr" where
  "abort p s = (Panic p, s)"

definition bnd :: "'a tr \<Rightarrow> ('a \<Rightarrow> 'b tr) \<Rightarrow> 'b tr" where
  "bnd m k s =
     (case m s of
        (Ok v, s') \<Rightarrow> k v s'
      | (Err e, s') \<Rightarrow> (Err e, s')
      | (Panic p, s') \<Rightarrow> (Panic p, s'))"

definition AppendInst :: "inst \<Rightarrow> unit tr" where
  "AppendInst i s = (Ok (), s\<lparr>bb := (bb s)\<lparr>Insts := Insts (bb s) @ [i]\<rparr>\<rparr>)"

definition emit :: "val \<Rightarrow> val tr" where
  "emit v = bnd (AppendInst (ValueInst v)) (\<lambda>_. ret v)"

definition NewLoad :: "val \<Rightarrow> val tr" where
  "NewLoad src = emit (InstLoad src)"

definition NewStore :: "val \<Rightarrow> val \<Rightarrow> unit tr" where
  "NewStore v dst = AppendInst (InstStore v dst)"

definition SetTerm :: "irterm \<Rightarrow> unit tr" where
  "SetTerm t s = (Ok (), s\<lparr>bb := (bb s)\<lparr>Term := Some t\<rparr>\<rparr>)"

definition NewBr :: "Address \<Rightarrow> unit tr" where
  "NewBr target = SetTerm (TermBr target)"

definition NewCondBr :: "val \<Rightarrow> Address \<Rightarrow> Address \<Rightarrow> unit tr" where
  "NewCondBr c targetTrue targetFalse = SetTerm (TermCondBr c targetTrue targetFalse)"

definition NewRet :: "val option \<Rightarrow> unit tr" where
  "NewRet v = SetTerm (TermRet v)"

text \<open>\<^verbatim>\<open>f.Sig.Ret\<close>, a nil dereference when the function has no \<^verbatim>\<open>ir.Function\<close>.\<close>

definition SigRet :: "ty tr" where
  "SigRet s = (case Function (fn s) of
                 None \<Rightarrow> (Panic NilDereference, s)
               | Some F \<Rightarrow> (Ok (Ret F), s))"

section \<open>Register and flag cells\<close>

definition regType :: "Reg \<Rightarrow> ty option" where
  "regType r =
     (if AL \<le> r \<and> r \<le> R15B then Some I8
      else if AX \<le> r \<and> r \<le> R15W then Some I16
      else if EAX \<le> r \<and> r \<le> R15L then Some I32
      else if RAX \<le> r \<and> r \<le> R15 then Some I64
      else if r = IP then Some I16
      else if r = EIP then Some I32
      else if r = RIP then Some I64
      else None)"

definition reg :: "Reg \<Rightarrow> val tr" where
  "reg r s =
     (case map_of (regs (fn s)) r of
        Some v \<Rightarrow> (Ok v, s)
      | None \<Rightarrow>
          (case regType r of
             None \<Rightarrow> (Panic (RegNotImplemented r), s)
           | Some typ \<Rightarrow>
               (let v = InstAlloca typ (RegName r)
                in (Ok v, s\<lparr>fn := (fn s)\<lparr>regs := (r, v) # regs (fn s)\<rparr>\<rparr>))))"

definition status_cell :: "StatusFlag \<Rightarrow> val tr" where
  "status_cell k s =
     (case map_of (status (fn s)) k of
        Some v \<Rightarrow> (Ok v, s)
      | None \<Rightarrow>
          (let v = InstAlloca I1 (StatusName k)
           in (Ok v, s\<lparr>fn := (fn s)\<lparr>status := (k, v) # status (fn s)\<rparr>\<rparr>)))"

definition useStatus :: "StatusFlag \<Rightarrow> val tr" where
  "useStatus k = bnd (status_cell k) NewLoad"

definition defStatus :: "StatusFlag \<Rightarrow> val \<Rightarrow> unit tr" where
  "defStatus k v = bnd (status_cell k) (\<lambda>dst. NewStore v dst)"

section \<open>Global memory model\<close>

text \<open>
  \<^verbatim>\<open>sort.Search\<close>: the least index in \<open>[0, n)\<close> at which \<open>f\<close> holds, found by
  bisection.
\<close>

function Search_loop :: "(nat \<Rightarrow> bool) \<Rightarrow> nat \<Rightarrow> nat \<Rightarrow> nat" where
  "Search_loop f i j =
     (if i < j then
        (let h = (i + j) div 2
         in if \<not> f h then Search_loop f (h + 1) j else Search_loop f i h)
      else i)"
  by pat_completeness auto
termination
  by (relation "measure (\<lambda>(f, i, j). j - i)") auto

definition Search :: "nat \<Rightarrow> (nat \<Rightarrow> bool) \<Rightarrow> nat" where
  "Search n f = Search_loop f 0 n"

text \<open>
  The inner loop of \<^verbatim>\<open>getElementPtr\<close> over the elements of an array: from element
  \<open>j\<close> with \<open>tot\<close> bytes skipped, it returns the index and the total it stops at.
\<close>

function arrayLoop :: "int \<Rightarrow> int \<Rightarrow> int \<Rightarrow> int \<Rightarrow> int \<Rightarrow> int \<times> int" where
  "arrayLoop len elemSize offset j tot =
     (if j < len then
        (if i64 (tot + elemSize) > offset then (j, tot)
         else arrayLoop len elemSize offset (j + 1) (i64 (tot + elemSize)))
      else (j, tot))"
  by pat_completeness auto
termination
  by (relation "measure (\<lambda>(len, elemSize, offset, j, tot). nat (len - j))") auto

text \<open>The inner loop over the fields of a structure.\<close>

function structLoop :: "(ty \<Rightarrow> int) \<Rightarrow> ty list \<Rightarrow> int \<Rightarrow> nat \<Rightarrow> int \<Rightarrow> nat \<times> int" where
  "structLoop sz flds offset j tot =
     (if j < length flds then
        (let fieldSize = sz (flds ! j)
         in if i64 (tot + fieldSize) > offset then (j, tot)
            else structLoop sz flds offset (j + 1) (i64 (tot + fieldSize)))
      else (j, tot))"
  by pat_completeness auto
termination
  by (relation "measure (\<lambda>(sz, flds, offset, j, tot). length flds - j)") auto

text \<open>
  The outer loop of \<^verbatim>\<open>getElementPtr\<close> from its second round on: \<open>e\<close> is the type
  being indexed, \<open>tot\<close> the bytes skipped so far.
\<close>

function gepIndices :: "(ty \<Rightarrow> int) \<Rightarrow> int \<Rightarrow> ty \<Rightarrow> int \<Rightarrow> val list \<Rightarrow> val list outcome" where
  "gepIndices sz offset e tot indices =
     (if tot \<ge> offset then Ok indices
      else
        (case e of
           PointerType t \<Rightarrow> Panic IndexThroughPointer
         | ArrayType len elem \<Rightarrow>
             (case arrayLoop len (sz elem) offset 0 tot of
                (j, tot') \<Rightarrow> gepIndices sz offset elem tot' (indices @ [ConstInt j I64]))
         | StructType flds \<Rightarrow>
             (case structLoop sz flds offset 0 tot of
                (j, tot') \<Rightarrow>
                  (if j < length flds
                   then gepIndices sz offset (flds ! j) tot' (indices @ [ConstInt (int j) I64])
                   else Panic IndexOutOfRange))
         | _ \<Rightarrow> Panic (IndexingNotImplemented e)))"
  by pat_completeness auto
termination
proof (relation "measure (\<lambda>(sz, offset, e, tot, indices). size_ty e)")
  show "wf (measure (\<lambda>(sz, offset, e, tot, indices). size_ty e))"
    by simp
next
  fix sz :: "ty \<Rightarrow> int" and offset tot :: int and e :: ty and indices :: "val list"
    and len :: int and elem :: ty and x :: "int \<times> int" and j tot' :: int
  assume "e = ArrayType len elem"
  then show "((sz, offset, elem, tot', indices @ [ConstInt j I64]), (sz, offset, e, tot, indices))
             \<in> measure (\<lambda>(sz, offset, e, tot, indices). size_ty e)"
    by simp
next
  fix sz :: "ty \<Rightarrow> int" and offset tot tot' :: int and e :: ty and indices :: "val list"
    and flds :: "ty list" and x :: "nat \<times> int" and j :: nat
  assume e: "e = StructType flds" and j: "j < length flds"
  have mem: "flds ! j \<in> set flds"
    using j by simp
  have "size_ty (flds ! j) \<le> size_list size_ty flds"
    using mem by (rule size_list_estimation') simp
  then have "size_ty (flds ! j) < Suc (size_list size_ty flds)"
    by simp
  then show "((sz, offset, flds ! j, tot', indices @ [ConstInt (int j) I64]), (sz, offset, e, tot, indices))
             \<in> measure (\<lambda>(sz, offset, e, tot, indices). size_ty e)"
    using e by simp
qed

text \<open>
  \<^verbatim>\<open>getElementPtr\<close>: a pointer to the given offset into the source. The first
  round of its loop adds the index 0 that follows the pointer; there is no
  round at all when the offset is not positive.
\<close>

definition getElementPtr :: "disassembler \<Rightarrow> Global \<Rightarrow> int \<Rightarrow> val tr" where
  "getElementPtr d src offset =
     (case Typ src of
        PointerType elem \<Rightarrow>
          (if 0 \<ge> offset then emit (InstGetElementPtr (GlobalV src) [])
           else
             (case gepIndices (sizeOfType d) offset elem 0 [ConstInt 0 I64] of
                Ok indices \<Rightarrow> emit (InstGetElementPtr (GlobalV src) indices)
              | Err e \<Rightarrow> fail e
              | Panic p \<Rightarrow> abort p))
      | _ \<Rightarrow> abort InvalidSourceAddressType)"

text \<open>\<^verbatim>\<open>global\<close>: a pointer to the global variable at the given address.\<close>

definition global :: "disassembler \<Rightarrow> Address \<Rightarrow> val tr" where
  "global d a =
     (case map_of (globals d) a of
        Some src \<Rightarrow> ret (GlobalV src)
      | None \<Rightarrow>
          (let globalAddrs = sort (map fst (globals d));
               index = int (Search (length globalAddrs) (\<lambda>i. a < globalAddrs ! i)) - 1
           in if 0 \<le> index \<and> index < int (length globalAddrs) then
                (let start = globalAddrs ! nat index
                 in case map_of (globals d) start of
                      None \<Rightarrow> abort NilDereference
                    | Some g \<Rightarrow>
                        (let gsize = sizeOfType d (Elem g);
                             endAddr = start + word_of_int gsize
                         in if start \<le> a \<and> a < endAddr
                            then getElementPtr d g (sint (a - start))
                            else abort (UnableToLocateGlobal a)))
              else abort (UnableToLocateGlobal a)))"

definition useGlobal :: "disassembler \<Rightarrow> Address \<Rightarrow> val tr" where
  "useGlobal d a = bnd (global d a) NewLoad"

definition defGlobal :: "disassembler \<Rightarrow> Address \<Rightarrow> val \<Rightarrow> unit tr" where
  "defGlobal d a v = bnd (global d a) (\<lambda>dst. NewStore v dst)"

section \<open>Operand resolver\<close>

text \<open>The instruction is absent (nil) where the caller names a register itself.\<close>

definition useArg :: "disassembler \<Rightarrow> instruction option \<Rightarrow> Arg \<Rightarrow> val tr" where
  "useArg d i a =
     (case a of
        RegArg r \<Rightarrow> bnd (reg r) NewLoad
      | MemArg seg base scale index disp \<Rightarrow>
          (if seg = 0 \<and> base = 0 \<and> scale = 0 \<and> index = 0
           then useGlobal d (word_of_int disp)
           else abort (ArgNotImplemented a))
      | ImmArg x \<Rightarrow> ret (ConstInt x I32)
      | RelArg x \<Rightarrow>
          (case i of
             None \<Rightarrow> abort NilDereference
           | Some i' \<Rightarrow>
               (let target = addr i' + word_of_int (Len i') + word_of_int x
                in case map_of (funcs d) target of
                     Some v \<Rightarrow> ret (FuncV target v)
                   | None \<Rightarrow> useGlobal d target))
      | NilArg \<Rightarrow> abort (ArgNotImplemented a))"

definition defArg :: "disassembler \<Rightarrow> instruction option \<Rightarrow> Arg \<Rightarrow> val \<Rightarrow> unit tr" where
  "defArg d i a v =
     (case a of
        RegArg r \<Rightarrow> bnd (reg r) (\<lambda>dst. NewStore v dst)
      | MemArg seg base scale index disp \<Rightarrow>
          (if seg = 0 \<and> base = 0 \<and> scale = 0 \<and> index = 0
           then defGlobal d (word_of_int disp) v
           else abort (ArgNotImplemented a))
      | _ \<Rightarrow> abort (ArgNotImplemented a))"

section \<open>Instruction translator\<close>

definition instADD :: "disassembler \<Rightarrow> instruction \<Rightarrow> unit tr" where
  "instADD d i =
     bnd (useArg d (Some i) (ArgAt i 0)) (\<lambda>x.
     bnd (useArg d (Some i) (ArgAt i 1)) (\<lambda>y.
     bnd (emit (InstAdd x y)) (\<lambda>result.
     defArg d (Some i) (ArgAt i 0) result)))"

definition instAND :: "disassembler \<Rightarrow> instruction \<Rightarrow> unit tr" where
  "instAND d i =
     bnd (useArg d (Some i) (ArgAt i 0)) (\<lambda>x.
     bnd (useArg d (Some i) (ArgAt i 1)) (\<lambda>y.
     bnd (emit (InstAnd x y)) (\<lambda>result.
     defArg d (Some i) (ArgAt i 0) result)))"

text \<open>
  Call arguments by the callee's calling convention: fastcall passes the first
  two parameters in ECX and EDX.
\<close>

definition callArgs :: "disassembler \<Rightarrow> funcdecl \<Rightarrow> val list tr" where
  "callArgs d callee =
     (if CallConv callee = CallConvX86FastCall then
        bnd (if length (Params callee) > 0
             then bnd (useArg d None (RegArg ECX)) (\<lambda>arg. ret [arg])
             else ret [])
            (\<lambda>args. if length (Params callee) > 1
                     then bnd (useArg d None (RegArg EDX)) (\<lambda>arg. ret (args @ [arg]))
                     else ret args)
      else ret [])"

definition instCALL :: "disassembler \<Rightarrow> instruction \<Rightarrow> unit tr" where
  "instCALL d i =
     bnd (useArg d (Some i) (ArgAt i 0)) (\<lambda>c.
       case c of
         FuncV a decl \<Rightarrow>
           (case decl of
              None \<Rightarrow> abort NilDereference
            | Some callee \<Rightarrow>
                bnd (callArgs d callee) (\<lambda>args.
                bnd (emit (InstCall c args)) (\<lambda>result.
                if Ret callee \<noteq> VoidType
                then defArg d None (RegArg EAX) result
                else ret ())))
       | _ \<Rightarrow> fail (InvalidCalleeType c))"

definition updateStatusFlags :: "val \<Rightarrow> val \<Rightarrow> unit tr" where
  "updateStatusFlags x y =
     bnd (emit (InstICmp IntEQ x y)) (\<lambda>zf.
     bnd (defStatus ZF zf) (\<lambda>_.
     bnd (emit (InstICmp IntSLT x y)) (\<lambda>sf.
     defStatus SF sf)))"

definition instCMP :: "disassembler \<Rightarrow> instruction \<Rightarrow> unit tr" where
  "instCMP d i =
     bnd (useArg d (Some i) (ArgAt i 0)) (\<lambda>x.
     bnd (useArg d (Some i) (ArgAt i 1)) (\<lambda>y.
     updateStatusFlags x y))"

definition instIMUL :: "disassembler \<Rightarrow> instruction \<Rightarrow> unit tr" where
  "instIMUL d i =
     bnd (useArg d (Some i) (ArgAt i 1)) (\<lambda>x.
     bnd (useArg d (Some i) (ArgAt i 2)) (\<lambda>y.
     bnd (emit (InstMul x y)) (\<lambda>result.
     defArg d (Some i) (ArgAt i 0) result)))"

definition instINC :: "disassembler \<Rightarrow> instruction \<Rightarrow> unit tr" where
  "instINC d i =
     bnd (useArg d (Some i) (ArgAt i 0)) (\<lambda>x.
     bnd (emit (InstAdd x (ConstInt 1 I32))) (\<lambda>result.
     defArg d (Some i) (ArgAt i 0) result))"

definition instMOV :: "disassembler \<Rightarrow> instruction \<Rightarrow> unit tr" where
  "instMOV d i =
     bnd (useArg d (Some i) (ArgAt i 1)) (\<lambda>y.
     defArg d (Some i) (ArgAt i 0) y)"

definition instXOR :: "disassembler \<Rightarrow> instruction \<Rightarrow> unit tr" where
  "instXOR d i =
     bnd (useArg d (Some i) (ArgAt i 0)) (\<lambda>x.
     bnd (useArg d (Some i) (ArgAt i 1)) (\<lambda>y.
     bnd (emit (InstXor x y)) (\<lambda>result.
     defArg d (Some i) (ArgAt i 0) result)))"

definition translateInst :: "disassembler \<Rightarrow> instruction \<Rightarrow> unit tr" where
  "translateInst d i =
     (case Op i of
        ADD \<Rightarrow> instADD d i
      | AND \<Rightarrow> instAND d i
      | CALL \<Rightarrow> instCALL d i
      | CMP \<Rightarrow> instCMP d i
      | IMUL \<Rightarrow> instIMUL d i
      | INC \<Rightarrow> instINC d i
      | MOV \<Rightarrow> instMOV d i
      | PUSH \<Rightarrow> ret ()
      | POP \<Rightarrow> ret ()
      | XOR \<Rightarrow> instXOR d i
      | _ \<Rightarrow> abort (InstNotImplemented (Op i)))"

section \<open>Terminator translator\<close>

definition lookupBlock :: "Address \<Rightarrow> basicBlock option tr" where
  "lookupBlock a s = (Ok (map_of (blocks (fn s)) a), s)"

text \<open>The condition of a conditional branch, from the flag cells.\<close>

definition condValue :: "Op \<Rightarrow> val tr" where
  "condValue op =
     (if op = JL then
        bnd (useStatus SF) (\<lambda>sf.
        bnd (useStatus OF) (\<lambda>ovf.
        emit (InstICmp IntNE sf ovf)))
      else if op = JG then
        bnd (useStatus SF) (\<lambda>sf.
        bnd (useStatus OF) (\<lambda>ovf.
        bnd (useStatus ZF) (\<lambda>zf.
        bnd (emit (InstICmp IntEQ zf ConstFalse)) (\<lambda>cond1.
        bnd (emit (InstICmp IntEQ sf ovf)) (\<lambda>cond2.
        emit (InstAnd cond1 cond2))))))
      else if op = JNE then
        bnd (useStatus ZF) (\<lambda>zf.
        emit (InstICmp IntEQ zf ConstFalse))
      else abort (CondBranchNotImplemented op))"

definition termCondBranch :: "disassembler \<Rightarrow> instruction \<Rightarrow> unit tr" where
  "termCondBranch d t =
     (let next = addr t + word_of_int (Len t);
          targetTrueAddrs = getAddrs d next (ArgAt t 0)
      in if length targetTrueAddrs \<noteq> 1
         then fail (InvalidNumberOfTrueBranches (length targetTrueAddrs))
         else
           (let targetTrueAddr = hd targetTrueAddrs
            in bnd (lookupBlock targetTrueAddr) (\<lambda>targetTrueBlock.
                 case targetTrueBlock of
                   None \<Rightarrow> fail (UnableToLocateBasicBlock targetTrueAddr)
                 | Some _ \<Rightarrow>
                     bnd (lookupBlock next) (\<lambda>targetFalseBlock.
                       case targetFalseBlock of
                         None \<Rightarrow> fail (UnableToLocateBasicBlock targetTrueAddr)
                       | Some _ \<Rightarrow>
                           bnd (condValue (Op t)) (\<lambda>cond.
                           NewCondBr cond targetTrueAddr next)))))"

definition termJMP :: "disassembler \<Rightarrow> instruction \<Rightarrow> unit tr" where
  "termJMP d t s =
     (if isTailCall d (entry (fn s)) t then
        bnd (instCALL d t) (\<lambda>_.
        bnd SigRet (\<lambda>r.
        if r \<noteq> VoidType
        then bnd (useArg d None (RegArg EAX)) (\<lambda>result. NewRet (Some result))
        else NewRet None)) s
      else abort (TermNotImplemented (Op t)) s)"

definition termRET :: "disassembler \<Rightarrow> instruction \<Rightarrow> unit tr" where
  "termRET d t =
     bnd SigRet (\<lambda>r.
     if r \<noteq> VoidType
     then bnd (useArg d None (RegArg EAX)) (\<lambda>result. NewRet (Some result))
     else NewRet None)"

definition condBranchOps :: "Op list" where
  "condBranchOps =
     [JA, JAE, JB, JBE, JCXZ, JE, JECXZ, JG, JGE, JL, JLE, JNE, JNO, JNP, JNS, JO, JP, JRCXZ, JS]"

definition translateTerm :: "disassembler \<Rightarrow> instruction \<Rightarrow> unit tr" where
  "translateTerm d t =
     (if isDummyTerm t then
        bnd (lookupBlock (addr t)) (\<lambda>target.
          case target of
            None \<Rightarrow> fail (UnableToLocateBasicBlock (addr t))
          | Some _ \<Rightarrow> NewBr (addr t))
      else if Op t \<in> set condBranchOps then termCondBranch d t
      else if Op t = JMP then termJMP d t
      else if Op t = RET then termRET d t
      else abort (TermNotImplemented (Op t)))"

section \<open>Function and block assembler\<close>

fun translateInsts :: "disassembler \<Rightarrow> instruction list \<Rightarrow> unit tr" where
  "translateInsts d [] = ret ()"
| "translateInsts d (i # rest) = bnd (translateInst d i) (\<lambda>_. translateInsts d rest)"

text \<open>
  \<^verbatim>\<open>translateBlock\<close> fills the IR block of the given block in place; here the
  filled block is written back under its key and returned.
\<close>

definition translateBlock ::
  "disassembler \<Rightarrow> Address \<Rightarrow> basicBlock \<Rightarrow> func \<Rightarrow> basicBlock outcome \<times> func" where
  "translateBlock d key block f =
     (case bnd (translateInsts d (insts block)) (\<lambda>_. translateTerm d (terminator block))
             \<lparr>fn = f, bb = BasicBlock block\<rparr> of
        (r, s) \<Rightarrow>
          (let block' = block\<lparr>BasicBlock := bb s\<rparr>;
               f' = (fn s)\<lparr>blocks := AList.update key block' (blocks (fn s))\<rparr>
           in case r of
                Ok _ \<Rightarrow> (Ok block', f')
              | Err e \<Rightarrow> (Err e, f')
              | Panic p \<Rightarrow> (Panic p, f')))"

text \<open>The first loop of \<^verbatim>\<open>translateFunc\<close>, over the sorted block addresses.\<close>

fun translateBlocks ::
  "disassembler \<Rightarrow> Address list \<Rightarrow> basicBlock list \<Rightarrow> func \<Rightarrow> basicBlock list outcome \<times> func" where
  "translateBlocks d [] acc f = (Ok acc, f)"
| "translateBlocks d (a # rest) acc f =
     (case map_of (blocks f) a of
        None \<Rightarrow> (Panic NilDereference, f)
      | Some block \<Rightarrow>
          (case translateBlock d a block f of
             (Ok block', f') \<Rightarrow> translateBlocks d rest (acc @ [block']) f'
           | (Err e, f') \<Rightarrow> (Err e, f')
           | (Panic p, f') \<Rightarrow> (Panic p, f')))"

text \<open>
  The synthetic entry block: the cells of the registers from \<^verbatim>\<open>AL\<close> to
  \<^verbatim>\<open>TR7\<close>, the cells of the flags from \<^verbatim>\<open>CF\<close> to \<^verbatim>\<open>OF\<close>, the stores of
  the parameters of a fastcall function, and the branch to the first block.
\<close>

definition entryBlock :: "func \<Rightarrow> irFunction \<Rightarrow> Address \<Rightarrow> irblock" where
  "entryBlock f F target =
     \<lparr>Insts =
        map ValueInst (List.map_filter (map_of (regs f)) [AL..<Suc TR7]) @
        map ValueInst (List.map_filter (map_of (status f)) [CF..<Suc OF]) @
        (if CallConv F = CallConvX86FastCall then
           (if length (Params F) > 0 then
              (case map_of (regs f) ECX of
                 Some ecx \<Rightarrow> [InstStore (ParamV 0 (Params F ! 0)) ecx]
               | None \<Rightarrow> [])
            else []) @
           (if length (Params F) > 1 then
              (case map_of (regs f) EDX of
                 Some edx \<Rightarrow> [InstStore (ParamV 1 (Params F ! 1)) edx]
               | None \<Rightarrow> [])
            else [])
         else []),
      Term = Some (TermBr target)\<rparr>"

text \<open>
  The start of \<^verbatim>\<open>translateFunc\<close>: a function that has no IR function yet gets
  one with the signature \<^verbatim>\<open>void ()\<close>. Its name and metadata are left out.
\<close>

definition ensureFunction :: "func \<Rightarrow> func" where
  "ensureFunction f0 =
     (case Function f0 of
        None \<Rightarrow>
          f0\<lparr>Function :=
               Some \<lparr>CallConv = CallConvNone, Params = [], Ret = VoidType, Blocks = []\<rparr>\<rparr>
      | Some F \<Rightarrow> f0)"

definition translateFunc :: "disassembler \<Rightarrow> func \<Rightarrow> unit outcome \<times> func" where
  "translateFunc d f0 =
     (let f = ensureFunction f0;
          blockAddrs = sort (map (\<lambda>(k, b). baddr b) (blocks f))
      in case translateBlocks d blockAddrs [] f of
           (Err e, f1) \<Rightarrow> (Err e, f1)
         | (Panic p, f1) \<Rightarrow> (Panic p, f1)
         | (Ok bs, f1) \<Rightarrow>
             (if length bs = 0 then (Err MissingFunctionBody, f1)
              else
                (case Function f1 of
                   None \<Rightarrow> (Panic NilDereference, f1)
                 | Some F \<Rightarrow>
                     (case sort_key baddr bs of
                        [] \<Rightarrow> (Panic IndexOutOfRange, f1)
                      | b0 # rest \<Rightarrow>
                          (let real = map (\<lambda>b. (Some (baddr b), BasicBlock b)) (b0 # rest);
                               body = (if length (regs f1) > 0 \<or> length (status f1) > 0
                                       then (None, entryBlock f1 F (baddr b0)) # real
                                       else real)
                           in (Ok (), f1\<lparr>Function := Some (F\<lparr>Blocks := Blocks F @ body\<rparr>)\<rparr>))))))"

section \<open>Notions used by the properties\<close>

text \<open>The emitted body of a function: the blocks of its IR function, if it has one.\<close>

definition body :: "func \<Rightarrow> (Address option \<times> irblock) list" where
  "body f = (case Function f of None \<Rightarrow> [] | Some F \<Rightarrow> Blocks F)"

section \<open>Example inputs\<close>

text \<open>
  A disassembler with no functions and no globals, where every type has size 4
  and a relative operand names the one address it is relative to.
\<close>

definition d0 :: disassembler where
  "d0 = \<lparr>funcs = [], globals = [], sizeOfType = (\<lambda>t. 4),
         getAddrs = (\<lambda>next a. case a of RelArg x \<Rightarrow> [next + word_of_int x] | _ \<Rightarrow> []),
         isTailCall = (\<lambda>e i. False)\<rparr>"

definition f_empty :: func where
  "f_empty = \<lparr>entry = 0x1000, Function = None, regs = [], status = [], blocks = []\<rparr>"

section \<open>The monad\<close>

lemma bnd_ret [simp]: "bnd (ret v) k = k v"
  by (rule ext) (simp add: bnd_def ret_def)

lemma bnd_abort [simp]: "bnd (abort p) k = abort p"
  by (rule ext) (simp add: bnd_def abort_def)

lemma bnd_fail [simp]: "bnd (fail e) k = fail e"
  by (rule ext) (simp add: bnd_def fail_def)

section \<open>The assembler\<close>

text \<open>
  C8. Translating a function whose block map is empty fails with the error
  "missing function body", and nothing is added to the body of the function.
\<close>

theorem translateFunc_missing_body:
  "blocks f = [] \<Longrightarrow>
     fst (translateFunc d f) = Err MissingFunctionBody \<and> body (snd (translateFunc d f)) = body f"
  by (simp add: translateFunc_def ensureFunction_def body_def split: option.splits)

theorem translateFunc_missing_body_witness:
  "blocks f_empty = [] \<and> fst (translateFunc d0 f_empty) = Err MissingFunctionBody
     \<and> body (snd (translateFunc d0 f_empty)) = []"
  using translateFunc_missing_body [of f_empty d0] by (simp add: f_empty_def body_def)

end
